theory Spec2Isabelle
  imports Main
begin

section \<open>The deck builder of build_playwright_mcp_demo.py\<close>

text \<open>
  The script assembles a presentation with python-pptx: one title slide and one content
  slide per entry of a compiled-in list, each over a full-slide background picture.
  The document is modelled as the values the script stores in it; every mutation of the
  script is a function returning the updated value, and every exception is an
  \<open>Inl\<close> result.
\<close>

subsection \<open>Lengths, text and the document\<close>

text \<open>
  Lengths are English Metric Units, as python-pptx stores them: \<open>Inches(x)\<close> is
  \<open>int(x * 914400)\<close> and \<open>Pt(n)\<close> is \<open>n * 12700\<close>. The script only
  uses the eight literals below, so \<open>Inches\<close> is given at those.
\<close>

definition Pt :: "int \<Rightarrow> int" where
  "Pt n = n * 12700"

definition Inches_0_6 :: int where "Inches_0_6 = 548640"
definition Inches_0_7 :: int where "Inches_0_7 = 640080"
definition Inches_1_2 :: int where "Inches_1_2 = 1097280"
definition Inches_1_5 :: int where "Inches_1_5 = 1371600"
definition Inches_1_6 :: int where "Inches_1_6 = 1463040"
definition Inches_2_2 :: int where "Inches_2_2 = 2011680"
definition Inches_5_1 :: int where "Inches_5_1 = 4663440"
definition Inches_10 :: int where "Inches_10 = 9144000"

text \<open>
  A Python \<open>str\<close> is a \<open>string\<close>; a character outside ASCII is its UTF-8 bytes.
  \<open>newline\<close> is the character of \<open>"\n"\<close>.
\<close>

definition newline :: char where
  "newline = CHR 0x0A"

definition apostrophe :: string where
  "apostrophe = [CHR 0x27]"

definition left_right_arrow :: string where
  "left_right_arrow = [CHR 0xE2, CHR 0x86, CHR 0x94]"

definition right_arrow :: string where
  "right_arrow = [CHR 0xE2, CHR 0x86, CHR 0x92]"

definition right_quote :: string where
  "right_quote = [CHR 0xE2, CHR 0x80, CHR 0x99]"

text \<open>
  A paragraph holds its text (a line feed in it is a line break inside the paragraph),
  its outline level and the font properties the script sets; \<open>None\<close> is a property
  left unset.
\<close>

record para =
  p_text :: string
  p_level :: nat
  p_size :: "int option"
  p_bold :: "bool option"
  p_color :: "(nat \<times> nat \<times> nat) option"

definition empty_paragraph :: para where
  "empty_paragraph =
     \<lparr>p_text = [], p_level = 0, p_size = None, p_bold = None, p_color = None\<rparr>"

datatype shape =
    Picture string int int int int
  | TextBox int int int int "para list"

text \<open>
  A slide owns its shapes in creation order and at most one notes slide, whose text frame
  is the paragraph list. A presentation has its slide size and its slides in order.
\<close>

record slide =
  shapes :: "shape list"
  notes_slide :: "para list option"

record presentation =
  slide_width :: int
  slide_height :: int
  slides :: "slide list"

text \<open>\<open>Presentation()\<close>: the default template, 10 by 7.5 inches, no slide.\<close>

definition Presentation :: presentation where
  "Presentation = \<lparr>slide_width = 9144000, slide_height = 6858000, slides = []\<rparr>"

text \<open>\<open>prs.slide_layouts[6]\<close>, the blank layout: a slide with no shape and no notes.\<close>

definition blank_slide :: slide where
  "blank_slide = \<lparr>shapes = [], notes_slide = None\<rparr>"

subsection \<open>What the run depends on, and its failures\<close>

text \<open>
  \<open>today\<close> is \<open>str(date.today())\<close>; \<open>readable_image\<close> tells whether
  \<open>add_picture\<close> can open a path as an image; \<open>writable\<close> whether \<open>save\<close> can
  write a path. \<open>UsageError\<close> is the exit of \<open>argparse\<close> on a missing required
  argument.
\<close>

record env =
  today :: string
  readable_image :: "string \<Rightarrow> bool"
  writable :: "string \<Rightarrow> bool"

datatype error = IOError | UsageError

record args =
  template_image :: string
  out :: string
  title :: string
  presenter :: string
  org :: string
  date :: string

subsection \<open>The shape builders\<close>

definition add_bg_image :: "env \<Rightarrow> slide \<Rightarrow> string \<Rightarrow> presentation \<Rightarrow> error + slide" where
  "add_bg_image e sl image_path prs =
     (if readable_image e image_path
      then Inr (sl\<lparr>shapes := shapes sl @
                  [Picture image_path 0 0 (slide_width prs) (slide_height prs)]\<rparr>)
      else Inl IOError)"

text \<open>
  \<open>add_textbox\<close> gives a text frame with one empty paragraph and \<open>clear\<close> keeps
  one; \<open>add_title\<close> puts the title in a run of it and sets the paragraph's font.
\<close>

definition add_title :: "slide \<Rightarrow> string \<Rightarrow> slide" where
  "add_title sl title_text =
     sl\<lparr>shapes := shapes sl @
        [TextBox Inches_0_7 Inches_0_6 Inches_10 Inches_1_2
           [empty_paragraph\<lparr>p_text := title_text, p_size := Some (Pt 44),
              p_bold := Some True, p_color := Some (0, 0, 0)\<rparr>]]\<rparr>"

definition add_subtitle :: "slide \<Rightarrow> string \<Rightarrow> slide" where
  "add_subtitle sl subtitle_text =
     sl\<lparr>shapes := shapes sl @
        [TextBox Inches_0_7 Inches_1_6 Inches_10 Inches_1_5
           [empty_paragraph\<lparr>p_text := subtitle_text, p_size := Some (Pt 20),
              p_color := Some (0, 0, 0)\<rparr>]]\<rparr>"

subsection \<open>The bullet outline\<close>

text \<open>
  An item of the bullet list is a \<open>str\<close>, a list or tuple of \<open>str\<close>, or any other
  Python value, which neither branch of the loop takes.
\<close>

datatype bullet = Str string | Seq "string list" | Other

text \<open>
  The text frame while the loop runs: its paragraphs and the \<open>first\<close> flag of the
  closure \<open>add_line\<close>. The first line overwrites the paragraph that \<open>clear\<close> left,
  every later one is a paragraph added at the end.
\<close>

record frame =
  paragraphs :: "para list"
  first :: bool

definition add_line :: "string \<Rightarrow> nat \<Rightarrow> frame \<Rightarrow> frame" where
  "add_line txt level tf =
     (let ps = (if first tf then paragraphs tf else paragraphs tf @ [empty_paragraph]);
          i = (if first tf then 0 else length ps - 1)
      in \<lparr>paragraphs = ps[i := (ps ! i)\<lparr>p_text := txt, p_level := level,
                                            p_size := Some (Pt 22)\<rparr>],
          first = False\<rparr>)"

fun add_sublines :: "string list \<Rightarrow> frame \<Rightarrow> frame" where
  "add_sublines [] tf = tf"
| "add_sublines (sub # subs) tf = add_sublines subs (add_line sub 1 tf)"

fun add_item :: "bullet \<Rightarrow> frame \<Rightarrow> frame" where
  "add_item (Str s) tf = add_line s 0 tf"
| "add_item (Seq []) tf = tf"
| "add_item (Seq (h # subs)) tf = add_sublines subs (add_line h 0 tf)"
| "add_item Other tf = tf"

fun add_items :: "bullet list \<Rightarrow> frame \<Rightarrow> frame" where
  "add_items [] tf = tf"
| "add_items (item # items) tf = add_items items (add_item item tf)"

definition add_bullets :: "slide \<Rightarrow> bullet list \<Rightarrow> slide" where
  "add_bullets sl bullets =
     sl\<lparr>shapes := shapes sl @
        [TextBox Inches_0_7 Inches_2_2 Inches_10 Inches_5_1
           (paragraphs (add_items bullets \<lparr>paragraphs = [empty_paragraph], first = True\<rparr>))]\<rparr>"

definition add_notes :: "slide \<Rightarrow> string \<Rightarrow> slide" where
  "add_notes sl notes_text =
     (if notes_text = [] then sl
      else sl\<lparr>notes_slide := Some [empty_paragraph\<lparr>p_text := notes_text\<rparr>]\<rparr>)"

subsection \<open>The slides\<close>

text \<open>
  \<open>prs.slides.add_slide\<close> appends a blank slide to the presentation at once, and the
  builders then fill that slide in place: \<open>put_slide\<close> stores the filled slide where
  the blank one is, at the end. When the picture cannot be opened the exception leaves
  the function after the blank slide has been appended, so the error comes with the
  presentation as the caller then holds it.
\<close>

definition add_slide :: "presentation \<Rightarrow> presentation" where
  "add_slide prs = prs\<lparr>slides := slides prs @ [blank_slide]\<rparr>"

definition put_slide :: "presentation \<Rightarrow> slide \<Rightarrow> presentation" where
  "put_slide prs sl = prs\<lparr>slides := butlast (slides prs) @ [sl]\<rparr>"

definition add_content_slide ::
  "env \<Rightarrow> presentation \<Rightarrow> string \<Rightarrow> string \<Rightarrow> bullet list \<Rightarrow> string \<Rightarrow>
     error \<times> presentation + presentation" where
  "add_content_slide e prs img ttl bullets notes =
     (let prs1 = add_slide prs
      in case add_bg_image e blank_slide img prs1 of
           Inl err \<Rightarrow> Inl (err, prs1)
         | Inr sl \<Rightarrow>
             Inr (put_slide prs1 (add_notes (add_bullets (add_title sl ttl) bullets) notes)))"

text \<open>\<open>sep.join(xs)\<close> of Python.\<close>

fun join :: "string \<Rightarrow> string list \<Rightarrow> string" where
  "join sep [] = []"
| "join sep [x] = x"
| "join sep (x # y # ys) = x @ sep @ join sep (y # ys)"

definition subtitle_lines :: "string \<Rightarrow> string \<Rightarrow> string \<Rightarrow> string \<Rightarrow> string list" where
  "subtitle_lines subtitle pres organ when =
     (let l0 = [subtitle];
          l1 = (if pres \<noteq> [] then l0 @ [pres] else l0);
          l2 = (if organ \<noteq> [] then l1 @ [organ] else l1)
      in l2 @ [when])"

definition add_title_slide ::
  "env \<Rightarrow> presentation \<Rightarrow> string \<Rightarrow> string \<Rightarrow> string \<Rightarrow> string \<Rightarrow> string \<Rightarrow> string \<Rightarrow>
     error \<times> presentation + presentation" where
  "add_title_slide e prs img ttl subtitle pres organ when =
     (let prs1 = add_slide prs
      in case add_bg_image e blank_slide img prs1 of
           Inl err \<Rightarrow> Inl (err, prs1)
         | Inr sl \<Rightarrow>
             Inr (put_slide prs1
                    (add_subtitle (add_title sl ttl)
                       (join [newline] (subtitle_lines subtitle pres organ when)))))"

subsection \<open>The compiled-in content\<close>

definition deck_subtitle :: string where
  "deck_subtitle =
     ''Definition, Architecture, Components, Uses, Installation, Execution, References''"

definition slide_specs :: "(string \<times> bullet list \<times> string) list" where
  "slide_specs = [
  (''Agenda'',
    [
      Str (''What is Playwright?''),
      Str (''What is MCP (Model Context Protocol)?''),
      Str (''Why Playwright + MCP''),
      Str (''Architecture''),
      Str (''Components''),
      Str (''Uses''),
      Str (''Install steps''),
      Str (''Execute steps (demo flow)''),
      Str (''References'')
    ],
    ''Set expectations and timing.''),
  (''What is Playwright?'',
    [
      Str (''Open-source end-to-end testing framework by Microsoft''),
      Str (''Automates Chromium, Firefox, WebKit across Windows, macOS, Linux, CI''),
      Str (''Fast, reliable, headless or headed modes''),
      Str (''Rich tooling: Codegen, Trace Viewer, HTML reports''),
      Str (''Great for E2E, smoke, visual, and API-assisted flows'')
    ],
    ''Emphasize cross-browser parity and dev tooling.''),
  (''What is MCP (Model Context Protocol)?'',
    [
      Str (''Protocol to safely connect LLMs to external tools and data''),
      Str (''Standardizes capabilities (tools/procedures, resources, prompts)''),
      Str (''Decouples LLMs from vendor-specific plugins''),
      Str (''Enables auditable, permissioned tool usage'')
    ],
    ''MCP as a clean contract between LLMs and tools.''),
  (''Why Combine Playwright + MCP?'',
    [
      Str (''Natural-language control of browsers via standardized tools''),
      Str (''Automate tasks and verifications with LLM guidance''),
      Str (''Reproduce flaky flows and triage with traces/logs''),
      Str (''Fits CI/CD and guardrails; observability via Playwright artifacts'')
    ],
    ''Bridge developer and AI operator workflows.''),
  (''Architecture'',
    [
      Str (''LLM Client '' @ left_right_arrow @ '' MCP Client/Transport '' @ left_right_arrow @ '' Playwright MCP Server '' @ left_right_arrow @ '' Playwright Core '' @ left_right_arrow @ '' Target Web App''),
      Str (''Optional: Secrets store, config, logging/telemetry, sandboxing'')
    ],
    ''Highlight trust boundaries and policy points.''),
  (''Core Components'',
    [
      Seq [''MCP Client:'',
           ''Connects LLM to MCP servers'',
           ''Presents tools/resources to the model''],
      Seq [''Playwright MCP Server:'',
           ''navigate, click, fill, waitFor, screenshot, extract, runTest'',
           ''Config: browser type, headless, storage state, timeouts''],
      Seq [''Playwright Runtime:'',
           ''Browsers, isolation contexts, tracing, reports'']
    ],
    ''Clarify responsibilities and config.''),
  (''Common Uses'',
    [
      Str (''E2E and smoke runs via natural-language prompts''),
      Str (''Repro/triage regressions with scripts and traces''),
      Str (''Data extraction and validation from internal apps''),
      Str (''Visual verifications and review screenshots''),
      Str (''CI bots that verify '' @ apostrophe @ ''happy path'' @ apostrophe @ '' before merge'')
    ],
    ''Map to concrete workflows.''),
  (''Prerequisites'',
    [
      Str (''Node.js 18+ and Git''),
      Str (''macOS/Windows/Linux with browser deps''),
      Str (''Optional: VS Code and npm/yarn/pnpm''),
      Str (''MCP-capable client (e.g., Claude Desktop) for LLM control'')
    ],
    ''Note proxies/sandbox considerations.''),
  (''Install: Playwright'',
    [
      Str (''npm init -y''),
      Str (''npm i -D @playwright/test''),
      Str (''npx playwright install --with-deps''),
      Str (''Optional: npx playwright test --ui; npx playwright codegen https://example.com'')
    ],
    ''Verify browsers downloaded; run a sample test.''),
  (''Install: Playwright MCP Server (example)'',
    [
      Str (''git clone <playwright-mcp-server-repo> && cd <repo>''),
      Str (''npm i && npm run build''),
      Str (''Configure .env: BROWSER, HEADLESS, TIMEOUTS, STORAGE_STATE''),
      Str (''npm start (verify local run)'')
    ],
    ''Replace with your team'' @ right_quote @ ''s server repo.''),
  (''Configure MCP Client'',
    [
      Str (''Add server in client (e.g., Claude Desktop Tools/Servers)''),
      Str (''Command: node dist/index.js; Working dir: server root''),
      Str (''Env: HEADLESS=true, BROWSER=chromium, etc.''),
      Str (''Validate tools: playwright.navigate, playwright.click, playwright.screenshot'')
    ],
    ''Dry run to list available procedures.''),
  (''Execute: LLM-Driven Demo'',
    [
      Str (''Start server: npm start''),
      Str (''Prompt: Open URL '' @ right_arrow @ '' Click Sign In '' @ right_arrow @ '' Fill creds '' @ right_arrow @ '' Submit''),
      Str (''Screenshot and confirm dashboard visible''),
      Str (''Collect artifacts: screenshots, traces'')
    ],
    ''Keep creds in secrets; show trace viewer.''),
  (''Execute: Playwright Test CLI (non-LLM)'',
    [
      Str (''npx playwright test''),
      Str (''npx playwright show-report''),
      Str (''npx playwright show-trace trace.zip'')
    ],
    ''Show parity with scripted flows.''),
  (''CI/CD Integration (Example)'',
    [
      Str (''Use official Playwright GitHub Action''),
      Str (''Cache browsers for speed''),
      Str (''Upload HTML report and trace artifacts'')
    ],
    ''Mention parallelization and flaky retry policy.''),
  (''Security & Governance'',
    [
      Str (''Least privilege; domain allowlists''),
      Str (''Redact secrets/PII; vault-backed env vars''),
      Str (''Logging/telemetry with sensitive-data filtering''),
      Str (''Sandbox/brokered access for production targets'')
    ],
    ''Cover infosec expectations.''),
  (''Troubleshooting'',
    [
      Str (''Install browsers: npx playwright install''),
      Str (''CI sandbox/headless issues: disable sandbox or run headed locally''),
      Str (''Selectors flaky: prefer data-testid and proper waits''),
      Str (''MCP connection errors: check path, permissions, env vars''),
      Str (''Trace empty: enable tracing around actions'')
    ],
    ''Mini-FAQ for demos.''),
  (''References'',
    [
      Str (''Playwright Docs: https://playwright.dev''),
      Str (''Test Intro: https://playwright.dev/docs/test-intro''),
      Str (''CLI: https://playwright.dev/docs/test-cli''),
      Str (''CI Guides: https://playwright.dev/docs/ci''),
      Str (''Trace Viewer: https://playwright.dev/docs/trace-viewer''),
      Str (''MCP Spec: https://modelcontextprotocol.io''),
      Str (''Claude + MCP Getting Started: https://docs.anthropic.com/claude/docs/mcp-get-started'')
    ],
    ''Add your internal repo link.'')
  ]"

fun add_content_slides ::
  "env \<Rightarrow> string \<Rightarrow> (string \<times> bullet list \<times> string) list \<Rightarrow> presentation \<Rightarrow>
     error \<times> presentation + presentation" where
  "add_content_slides e img [] prs = Inr prs"
| "add_content_slides e img ((ttl, bullets, notes) # rest) prs =
     (case add_content_slide e prs img ttl bullets notes of
        Inl failed \<Rightarrow> Inl failed
      | Inr prs' \<Rightarrow> add_content_slides e img rest prs')"

text \<open>
  The presentation is a local of \<open>build_prs\<close>: an exception leaves the function
  with the error alone.
\<close>

definition build_prs :: "env \<Rightarrow> args \<Rightarrow> error + presentation" where
  "build_prs e a =
     (case add_title_slide e Presentation (template_image a) (title a) deck_subtitle
             (presenter a) (org a) (if date a \<noteq> [] then date a else today e) of
        Inl failed \<Rightarrow> Inl (fst failed)
      | Inr prs \<Rightarrow>
          (case add_content_slides e (template_image a) slide_specs prs of
             Inl failed \<Rightarrow> Inl (fst failed)
           | Inr prs' \<Rightarrow> Inr prs'))"

subsection \<open>The command line\<close>

text \<open>
  What the command line gives for each option, \<open>None\<close> for an option left out;
  \<open>parse_args\<close> fills in the defaults of the \<open>add_argument\<close> calls.
\<close>

record cli =
  cli_template_image :: "string option"
  cli_out :: "string option"
  cli_title :: "string option"
  cli_presenter :: "string option"
  cli_org :: "string option"
  cli_date :: "string option"

definition parse_args :: "cli \<Rightarrow> error + args" where
  "parse_args c =
     (case cli_template_image c of
        None \<Rightarrow> Inl UsageError
      | Some img \<Rightarrow>
          Inr \<lparr>template_image = img,
               out = (case cli_out c of None \<Rightarrow> ''Playwright-MCP-Demo.pptx'' | Some v \<Rightarrow> v),
               title = (case cli_title c of None \<Rightarrow> ''Playwright MCP Demo'' | Some v \<Rightarrow> v),
               presenter = (case cli_presenter c of None \<Rightarrow> ''Sheshashayan Papanna'' | Some v \<Rightarrow> v),
               org = (case cli_org c of None \<Rightarrow> [] | Some v \<Rightarrow> v),
               date = (case cli_date c of None \<Rightarrow> ''07/11/2025'' | Some v \<Rightarrow> v)\<rparr>)"

text \<open>
  The world \<open>main\<close> acts on: the presentation files on disk and the lines printed.
  A \<open>save\<close> that fails is modelled as writing nothing.
\<close>

record world =
  files :: "string \<Rightarrow> presentation option"
  printed :: "string list"

definition save :: "env \<Rightarrow> presentation \<Rightarrow> string \<Rightarrow> world \<Rightarrow> (error + unit) \<times> world" where
  "save e prs path w =
     (if writable e path then (Inr (), w\<lparr>files := (files w)(path \<mapsto> prs)\<rparr>)
      else (Inl IOError, w))"

definition main :: "env \<Rightarrow> cli \<Rightarrow> world \<Rightarrow> (error + unit) \<times> world" where
  "main e c w =
     (case parse_args c of
        Inl err \<Rightarrow> (Inl err, w)
      | Inr a \<Rightarrow>
          (case build_prs e a of
             Inl err \<Rightarrow> (Inl err, w)
           | Inr prs \<Rightarrow>
               (case save e prs (out a) w of
                  (Inl err, w') \<Rightarrow> (Inl err, w')
                | (Inr u, w') \<Rightarrow> (Inr (), w'\<lparr>printed := printed w' @ [''Wrote '' @ out a]\<rparr>))))"

subsection \<open>Reading the document\<close>

text \<open>
  What the properties below are stated on: the paragraphs of a text box, of the box added
  last to a slide (the bullet outline of a content slide, the subtitle block of the title
  slide), and the text of the title box, the second shape of every slide.
\<close>

fun box_paragraphs :: "shape \<Rightarrow> para list" where
  "box_paragraphs (Picture path x y w h) = []"
| "box_paragraphs (TextBox x y w h ps) = ps"

definition last_box :: "slide \<Rightarrow> para list" where
  "last_box sl = (case rev (shapes sl) of [] \<Rightarrow> [] | sh # shs \<Rightarrow> box_paragraphs sh)"

definition box_text :: "para list \<Rightarrow> string" where
  "box_text ps = (case ps of [] \<Rightarrow> [] | p # qs \<Rightarrow> p_text p)"

definition subtitle_text :: "slide \<Rightarrow> string" where
  "subtitle_text sl = box_text (last_box sl)"

definition title_text :: "slide \<Rightarrow> string" where
  "title_text sl = (case shapes sl of pic # tb # shs \<Rightarrow> box_text (box_paragraphs tb) | _ \<Rightarrow> [])"

definition level_text :: "para \<Rightarrow> string \<times> nat" where
  "level_text p = (p_text p, p_level p)"

text \<open>\<open>s.split(c)\<close> of Python for a one-character separator: the lines of a text.\<close>

fun split_on :: "char \<Rightarrow> string \<Rightarrow> string list" where
  "split_on c [] = [[]]"
| "split_on c (x # xs) =
     (if x = c then [] # split_on c xs
      else (case split_on c xs of [] \<Rightarrow> [[x]] | l # ls \<Rightarrow> (x # l) # ls))"

definition deck_titles :: "presentation \<Rightarrow> string list" where
  "deck_titles prs = map title_text (slides prs)"

definition deck_subtitle_text :: "presentation \<Rightarrow> string" where
  "deck_subtitle_text prs = (case slides prs of [] \<Rightarrow> [] | sl # sls \<Rightarrow> subtitle_text sl)"

text \<open>The date of the deck is the last line of the title slide's subtitle block.\<close>

definition deck_date :: "presentation \<Rightarrow> string" where
  "deck_date prs = last (split_on newline (deck_subtitle_text prs))"

subsection \<open>The outline rule and the count of the specification\<close>

text \<open>
  The normalization rule in the words of the specification: a line of text is one entry
  at depth 0, a group is its heading at depth 0 and then its sublines at depth 1. An empty
  group and a value that is neither have no entry.
\<close>

fun outline :: "bullet \<Rightarrow> (string \<times> nat) list" where
  "outline (Str s) = [(s, 0)]"
| "outline (Seq []) = []"
| "outline (Seq (h # subs)) = (h, 0) # map (\<lambda>s. (s, 1)) subs"
| "outline Other = []"

text \<open>
  The count of the specification: the top-level items plus the sub-items, the sub-items of
  a group being what follows its heading. \<open>spec_item\<close> holds of the items of the
  specification's data model: a line, or a group that has its heading.
\<close>

fun sub_items :: "bullet \<Rightarrow> nat" where
  "sub_items (Str s) = 0"
| "sub_items (Seq xs) = length xs - 1"
| "sub_items Other = 0"

definition spec_count :: "bullet list \<Rightarrow> nat" where
  "spec_count bs = length bs + sum_list (map sub_items bs)"

fun spec_item :: "bullet \<Rightarrow> bool" where
  "spec_item (Str s) = True"
| "spec_item (Seq xs) = (xs \<noteq> [])"
| "spec_item Other = False"

subsection \<open>The slide invariant\<close>

text \<open>
  The script tells its text boxes apart by where it puts them only: the title box has its
  top at 0.6 inch, the body box (subtitle block or bullet outline) at 1.6 or 2.2 inches.
  A slide has at most one notes slide by its type; \<open>notes_blocks\<close> lists it.
\<close>

fun is_picture :: "shape \<Rightarrow> bool" where
  "is_picture (Picture path x y w h) = True"
| "is_picture (TextBox x y w h ps) = False"

fun picture_fills :: "int \<Rightarrow> int \<Rightarrow> shape \<Rightarrow> bool" where
  "picture_fills W H (Picture path x y w h) = (w = W \<and> h = H)"
| "picture_fills W H (TextBox x y w h ps) = False"

fun is_title_box :: "shape \<Rightarrow> bool" where
  "is_title_box (Picture path x y w h) = False"
| "is_title_box (TextBox x y w h ps) = (y = Inches_0_6)"

fun is_body_box :: "shape \<Rightarrow> bool" where
  "is_body_box (Picture path x y w h) = False"
| "is_body_box (TextBox x y w h ps) = (y = Inches_1_6 \<or> y = Inches_2_2)"

definition notes_blocks :: "slide \<Rightarrow> para list list" where
  "notes_blocks sl = (case notes_slide sl of None \<Rightarrow> [] | Some ps \<Rightarrow> [ps])"

definition slide_inv :: "int \<Rightarrow> int \<Rightarrow> slide \<Rightarrow> bool" where
  "slide_inv W H sl =
     (length (filter is_picture (shapes sl)) = 1 \<and>
      list_all (picture_fills W H) (filter is_picture (shapes sl)) \<and>
      length (filter is_title_box (shapes sl)) \<le> 1 \<and>
      length (filter is_body_box (shapes sl)) \<le> 1 \<and>
      length (notes_blocks sl) \<le> 1)"

definition deck_inv :: "presentation \<Rightarrow> bool" where
  "deck_inv prs = list_all (slide_inv (slide_width prs) (slide_height prs)) (slides prs)"

subsection \<open>Closed forms of the slides, for the proofs\<close>

definition written :: "frame \<Rightarrow> (string \<times> nat) list" where
  "written tf = (if first tf then [] else map level_text (paragraphs tf))"

definition fresh :: "frame \<Rightarrow> bool" where
  "fresh tf = (first tf \<longrightarrow> paragraphs tf = [empty_paragraph])"

definition init_frame :: frame where
  "init_frame = \<lparr>paragraphs = [empty_paragraph], first = True\<rparr>"

definition picture_slide :: "int \<Rightarrow> int \<Rightarrow> string \<Rightarrow> slide" where
  "picture_slide w h img = blank_slide\<lparr>shapes := [Picture img 0 0 w h]\<rparr>"

definition content_slide :: "int \<Rightarrow> int \<Rightarrow> string \<Rightarrow> string \<times> bullet list \<times> string \<Rightarrow> slide" where
  "content_slide w h img spec =
     (case spec of (ttl, bullets, notes) \<Rightarrow>
        add_notes (add_bullets (add_title (picture_slide w h img) ttl) bullets) notes)"

definition title_slide :: "int \<Rightarrow> int \<Rightarrow> string \<Rightarrow> string \<Rightarrow> string list \<Rightarrow> slide" where
  "title_slide w h img ttl ls =
     add_subtitle (add_title (picture_slide w h img) ttl) (join [newline] ls)"

definition when_of :: "env \<Rightarrow> args \<Rightarrow> string" where
  "when_of e a = (if date a \<noteq> [] then date a else today e)"

subsection \<open>Example runs\<close>

text \<open>
  Two days on which only \<open>t.png\<close> is a readable image, and four command lines: the
  template alone, the example of the specification, an empty date, a missing template.
\<close>

definition env_a :: env where
  "env_a = \<lparr>today = ''2026-11-04'', readable_image = (\<lambda>p. p = ''t.png''),
            writable = (\<lambda>p. True)\<rparr>"

definition env_b :: env where
  "env_b = \<lparr>today = ''2026-11-05'', readable_image = (\<lambda>p. p = ''t.png''),
            writable = (\<lambda>p. True)\<rparr>"

definition cli_plain :: cli where
  "cli_plain = \<lparr>cli_template_image = Some ''t.png'', cli_out = None, cli_title = None,
                cli_presenter = None, cli_org = None, cli_date = None\<rparr>"

definition args_plain :: args where
  "args_plain = \<lparr>template_image = ''t.png'', out = ''Playwright-MCP-Demo.pptx'',
                 title = ''Playwright MCP Demo'', presenter = ''Sheshashayan Papanna'',
                 org = [], date = ''07/11/2025''\<rparr>"

definition cli_jane :: cli where
  "cli_jane = \<lparr>cli_template_image = Some ''t.png'', cli_out = None, cli_title = None,
               cli_presenter = Some ''Jane Doe'', cli_org = None,
               cli_date = Some ''01/01/2030''\<rparr>"

definition args_jane :: args where
  "args_jane = \<lparr>template_image = ''t.png'', out = ''Playwright-MCP-Demo.pptx'',
                title = ''Playwright MCP Demo'', presenter = ''Jane Doe'',
                org = [], date = ''01/01/2030''\<rparr>"

definition cli_no_date :: cli where
  "cli_no_date = \<lparr>cli_template_image = Some ''t.png'', cli_out = None, cli_title = None,
                  cli_presenter = None, cli_org = None, cli_date = Some []\<rparr>"

definition args_no_date :: args where
  "args_no_date = \<lparr>template_image = ''t.png'', out = ''Playwright-MCP-Demo.pptx'',
                   title = ''Playwright MCP Demo'', presenter = ''Sheshashayan Papanna'',
                   org = [], date = []\<rparr>"

definition cli_missing :: cli where
  "cli_missing = \<lparr>cli_template_image = Some ''missing.png'', cli_out = None,
                  cli_title = None, cli_presenter = None, cli_org = None, cli_date = None\<rparr>"

definition world_empty :: world where
  "world_empty = \<lparr>files = Map.empty, printed = []\<rparr>"

definition deck_one :: presentation where
  "deck_one = \<lparr>slide_width = 9144000, slide_height = 6858000,
               slides = [title_slide 9144000 6858000 ''t.png'' ''Deck''
                           [''Subtitle'', ''01/01/2030'']]\<rparr>"

definition bullets_example :: "bullet list" where
  "bullets_example =
     [Str ''a'', Seq [''h'', ''s1'', ''s2''], Seq [], Other, Str ''b'']"

subsection \<open>Lemmas on the bullet loop\<close>

lemma add_line_first [simp]: "first (add_line t l tf) = False"
  by (simp add: add_line_def Let_def)

lemma fresh_add_line [simp]: "fresh (add_line t l tf)"
  by (simp add: fresh_def)

lemma written_add_line: "fresh tf \<Longrightarrow> written (add_line t l tf) = written tf @ [(t, l)]"
  by (auto simp: fresh_def written_def add_line_def Let_def level_text_def nth_append)

lemma add_sublines_props:
  "fresh tf \<Longrightarrow> fresh (add_sublines subs tf) \<and> (first (add_sublines subs tf) = (first tf \<and> subs = []))
      \<and> written (add_sublines subs tf) = written tf @ map (\<lambda>s. (s, 1)) subs"
proof (induction subs arbitrary: tf)
  case Nil
  then show ?case by simp
next
  case (Cons s subs)
  from Cons.IH [of "add_line s 1 tf"] Cons.prems show ?case
    by (simp add: written_add_line)
qed

lemma add_item_props:
  assumes f: "fresh tf"
  shows "fresh (add_item b tf) \<and> (first (add_item b tf) = (first tf \<and> outline b = []))
      \<and> written (add_item b tf) = written tf @ outline b"
proof (cases b)
  case (Str s)
  with f show ?thesis by (simp add: written_add_line)
next
  case (Seq xs)
  show ?thesis
  proof (cases xs)
    case Nil
    with f Seq show ?thesis by simp
  next
    case (Cons h subs)
    from add_sublines_props [of "add_line h 0 tf" subs] f Seq Cons show ?thesis
      by (simp add: written_add_line)
  qed
next
  case Other
  with f show ?thesis by simp
qed

lemma add_items_props:
  "fresh tf \<Longrightarrow> fresh (add_items bs tf)
      \<and> (first (add_items bs tf) = (first tf \<and> concat (map outline bs) = []))
      \<and> written (add_items bs tf) = written tf @ concat (map outline bs)"
proof (induction bs arbitrary: tf)
  case Nil
  then show ?case by simp
next
  case (Cons b bs)
  from add_item_props [of tf b] Cons.prems
  have 1: "fresh (add_item b tf)" and 2: "first (add_item b tf) = (first tf \<and> outline b = [])"
    and 3: "written (add_item b tf) = written tf @ outline b"
    by simp_all
  from Cons.IH [OF 1] 2 3 show ?case by auto
qed

lemma add_items_init:
  "map level_text (paragraphs (add_items bs init_frame)) =
     (if concat (map outline bs) = [] then [([], 0)] else concat (map outline bs))"
proof -
  let ?tf = "add_items bs init_frame"
  have f: "fresh init_frame" by (simp add: fresh_def init_frame_def)
  have w0: "written init_frame = []" and f0: "first init_frame"
    by (simp_all add: written_def init_frame_def)
  from add_items_props [OF f, of bs]
  have fr: "fresh ?tf" and fi: "first ?tf = (concat (map outline bs) = [])"
    and wr: "written ?tf = concat (map outline bs)"
    by (simp_all only: w0 f0 simp_thms append_Nil)
  show ?thesis
  proof (cases "concat (map outline bs) = []")
    case True
    with fi have "first ?tf" by simp
    with fr have "paragraphs ?tf = [empty_paragraph]" by (simp add: fresh_def)
    with True show ?thesis by (simp add: level_text_def empty_paragraph_def)
  next
    case False
    with fi have "\<not> first ?tf" by simp
    then have "written ?tf = map level_text (paragraphs ?tf)" by (simp add: written_def)
    with wr have "map level_text (paragraphs ?tf) = concat (map outline bs)" by simp
    with False show ?thesis by (simp only: if_False)
  qed
qed

lemma last_box_add_bullets:
  "last_box (add_bullets sl bs) = paragraphs (add_items bs init_frame)"
  by (simp add: last_box_def add_bullets_def init_frame_def)

lemma length_outline: "spec_item b \<Longrightarrow> length (outline b) = Suc (sub_items b)"
  by (cases b; cases "case b of Seq xs \<Rightarrow> xs | _ \<Rightarrow> []") auto

lemma length_outline_all:
  "\<forall>b\<in>set bs. spec_item b \<Longrightarrow> length (concat (map outline bs)) = spec_count bs"
  by (induction bs) (auto simp: spec_count_def length_outline)

lemma paragraph_count:
  assumes "bs \<noteq> []" and "\<forall>b\<in>set bs. spec_item b"
  shows "length (paragraphs (add_items bs init_frame)) = spec_count bs"
proof -
  from assms have "spec_count bs \<noteq> 0" by (cases bs) (simp_all add: spec_count_def)
  with length_outline_all [OF assms(2)] have ne: "concat (map outline bs) \<noteq> []"
    by (metis list.size(3))
  have "length (paragraphs (add_items bs init_frame)) =
          length (map level_text (paragraphs (add_items bs init_frame)))" by simp
  also have "\<dots> = length (concat (map outline bs))"
    using ne by (simp only: add_items_init if_False)
  finally show ?thesis by (simp add: length_outline_all [OF assms(2)])
qed

lemma add_items_append: "add_items (xs @ ys) tf = add_items ys (add_items xs tf)"
  by (induction xs arbitrary: tf) simp_all

subsection \<open>Lemmas on the slide builders\<close>

lemma add_bg_image_Inr:
  "add_bg_image e blank_slide img prs =
     (if readable_image e img then Inr (picture_slide (slide_width prs) (slide_height prs) img)
      else Inl IOError)"
  by (simp add: add_bg_image_def picture_slide_def blank_slide_def)

lemma add_content_slide_eq:
  "add_content_slide e prs img ttl bullets notes =
     (if readable_image e img
      then Inr (prs\<lparr>slides := slides prs @
             [content_slide (slide_width prs) (slide_height prs) img (ttl, bullets, notes)]\<rparr>)
      else Inl (IOError, prs\<lparr>slides := slides prs @ [blank_slide]\<rparr>))"
  by (simp add: add_content_slide_def add_slide_def put_slide_def add_bg_image_Inr
      content_slide_def)

lemma add_title_slide_eq:
  "add_title_slide e prs img ttl subtitle pres organ when =
     (if readable_image e img
      then Inr (prs\<lparr>slides := slides prs @
             [title_slide (slide_width prs) (slide_height prs) img ttl
                (subtitle_lines subtitle pres organ when)]\<rparr>)
      else Inl (IOError, prs\<lparr>slides := slides prs @ [blank_slide]\<rparr>))"
  by (simp add: add_title_slide_def add_slide_def put_slide_def add_bg_image_Inr
      title_slide_def)

lemma add_content_slides_ok:
  "readable_image e img \<Longrightarrow>
     add_content_slides e img specs prs =
       Inr (prs\<lparr>slides := slides prs @
              map (content_slide (slide_width prs) (slide_height prs) img) specs\<rparr>)"
proof (induction specs arbitrary: prs)
  case Nil
  then show ?case by simp
next
  case (Cons spec specs)
  obtain ttl bullets nts where s: "spec = (ttl, bullets, nts)" by (cases spec) auto
  from Cons show ?case by (simp add: s add_content_slide_eq)
qed

lemma build_prs_eq:
  "build_prs e a =
     (if readable_image e (template_image a)
      then Inr \<lparr>slide_width = 9144000, slide_height = 6858000,
                slides = title_slide 9144000 6858000 (template_image a) (title a)
                           (subtitle_lines deck_subtitle (presenter a) (org a) (when_of e a))
                         # map (content_slide 9144000 6858000 (template_image a)) slide_specs\<rparr>
      else Inl IOError)"
  by (simp add: build_prs_def add_title_slide_eq add_content_slides_ok Presentation_def when_of_def)

lemma slide_specs_spec_items:
  "\<forall>spec\<in>set slide_specs. fst (snd spec) \<noteq> [] \<and> (\<forall>b\<in>set (fst (snd spec)). spec_item b)"
  by (simp add: slide_specs_def)

lemma length_slide_specs: "length slide_specs = 17"
  by (simp add: slide_specs_def)

subsection \<open>Lemmas on lines and the subtitle block\<close>

lemma split_on_no_sep: "c \<notin> set s \<Longrightarrow> split_on c s = [s]"
  by (induction s) auto

lemma split_on_append: "c \<notin> set s \<Longrightarrow> split_on c (s @ c # t) = s # split_on c t"
  by (induction s) auto

lemma split_on_join:
  "xs \<noteq> [] \<Longrightarrow> \<forall>x\<in>set xs. c \<notin> set x \<Longrightarrow> split_on c (join [c] xs) = xs"
proof (induction "[c]" xs rule: join.induct)
  case 1
  then show ?case by simp
next
  case (2 x)
  then show ?case by (simp add: split_on_no_sep)
next
  case (3 x y ys)
  then show ?case by (simp add: split_on_append)
qed

lemma subtitle_text_title_slide:
  "subtitle_text (title_slide w h img ttl ls) = join [newline] ls"
  by (simp add: subtitle_text_def last_box_def title_slide_def add_subtitle_def box_text_def)

lemma title_text_title_slide: "title_text (title_slide w h img ttl ls) = ttl"
  by (simp add: title_text_def title_slide_def add_subtitle_def add_title_def picture_slide_def
      box_text_def)

lemma join_subtitle_lines:
  "join [newline] (subtitle_lines subtitle pres organ when) =
     subtitle @ (if pres = [] then [] else newline # pres) @
       (if organ = [] then [] else newline # organ) @ newline # when"
  by (simp add: subtitle_lines_def)

lemma subtitle_lines_filter:
  "subtitle_lines subtitle pres organ when =
     subtitle # filter (\<lambda>s. s \<noteq> []) [pres, organ] @ [when]"
  by (simp add: subtitle_lines_def)

lemma split_on_not_Nil [simp]: "split_on c s \<noteq> []"
  by (induction s) (auto split: list.splits)

lemma split_on_append_sep: "split_on c (s @ c # t) = split_on c s @ split_on c t"
  by (induction s) (auto split: list.splits)

lemma last_split_on: "c \<notin> set t \<Longrightarrow> last (split_on c (s @ c # t)) = t"
  by (simp add: split_on_append_sep split_on_no_sep)

lemma last_line_subtitle:
  "newline \<notin> set when \<Longrightarrow>
     last (split_on newline (join [newline] (subtitle_lines subtitle pres organ when))) = when"
proof -
  have "\<exists>s. join [newline] (subtitle_lines subtitle pres organ when) = s @ newline # when"
    by (simp only: join_subtitle_lines) (metis append.assoc)
  then show "newline \<notin> set when \<Longrightarrow> ?thesis" by (auto simp: last_split_on)
qed

lemma deck_obs_build:
  "build_prs e a = Inr prs \<Longrightarrow>
     deck_subtitle_text prs =
       join [newline] (subtitle_lines deck_subtitle (presenter a) (org a) (when_of e a))"
  by (auto simp: build_prs_eq deck_subtitle_text_def subtitle_text_title_slide split: if_splits)

lemma title_text_content_slide:
  "title_text (content_slide w h img (ttl, bullets, nts)) = ttl"
  by (simp add: title_text_def content_slide_def add_notes_def add_bullets_def add_title_def
      picture_slide_def blank_slide_def box_text_def)

lemma deck_titles_build:
  "build_prs e a = Inr prs \<Longrightarrow> deck_titles prs = title a # map fst slide_specs"
  by (auto simp: build_prs_eq deck_titles_def title_text_title_slide title_text_content_slide
      split: if_splits)

subsection \<open>Lemmas on the invariant\<close>

lemma notes_blocks_le [simp]: "length (notes_blocks sl) \<le> Suc 0"
  by (simp add: notes_blocks_def split: option.splits)

lemma shapes_add_notes [simp]: "shapes (add_notes sl nts) = shapes sl"
  by (simp add: add_notes_def)

lemma slide_inv_content: "slide_inv W H (content_slide W H img spec)"
  by (cases spec)
     (simp add: slide_inv_def content_slide_def add_bullets_def add_title_def picture_slide_def
        Inches_0_6_def Inches_2_2_def Inches_1_6_def)

lemma slide_inv_title: "slide_inv W H (title_slide W H img ttl ls)"
  by (simp add: slide_inv_def title_slide_def add_subtitle_def add_title_def picture_slide_def
        Inches_0_6_def Inches_2_2_def Inches_1_6_def blank_slide_def)

lemma deck_inv_build: "build_prs e a = Inr prs \<Longrightarrow> deck_inv prs"
  by (auto simp: build_prs_eq deck_inv_def slide_inv_title slide_inv_content list_all_iff
      split: if_splits)

lemma deck_inv_content:
  "deck_inv p \<Longrightarrow> add_content_slide e p img ttl bullets nts = Inr p' \<Longrightarrow> deck_inv p'"
  by (auto simp: add_content_slide_eq deck_inv_def slide_inv_content split: if_splits)

lemma deck_inv_title:
  "deck_inv p \<Longrightarrow> add_title_slide e p img ttl subtitle pres organ when = Inr p' \<Longrightarrow> deck_inv p'"
  by (auto simp: add_title_slide_eq deck_inv_def slide_inv_title split: if_splits)

subsection \<open>The run that succeeds\<close>

lemma main_ok:
  "cli_template_image c = Some img \<Longrightarrow> readable_image e img \<Longrightarrow> parse_args c = Inr a \<Longrightarrow>
     writable e (out a) \<Longrightarrow>
     \<exists>prs. build_prs e a = Inr prs \<and>
       main e c w = (Inr (), \<lparr>files = (files w)(out a \<mapsto> prs),
                               printed = printed w @ [''Wrote '' @ out a]\<rparr>)"
  by (auto simp: main_def save_def build_prs_eq parse_args_def)


section \<open>The claims\<close>

subsection \<open>The bullet outline\<close>

text \<open>
  Claim C1. For any bullet content, the paragraphs of the bullet outline box are, in
  order, one paragraph at depth 0 for each item that is a line of text and, for each
  group, its heading at depth 0 followed at once by its sublines at depth 1, in the order
  of the input. When no item gives a line the box keeps the one empty paragraph of
  its text frame.
\<close>

theorem add_bullets_outline:
  "map level_text (last_box (add_bullets sl bullets)) =
     (if concat (map outline bullets) = [] then [([], 0)] else concat (map outline bullets))"
  by (simp only: last_box_add_bullets add_items_init)

theorem add_bullets_outline_witness:
  "map level_text (last_box (add_bullets blank_slide bullets_example)) =
     [(''a'', 0), (''h'', 0), (''s1'', 1), (''s2'', 1), (''b'', 0)]"
  using add_bullets_outline [of blank_slide bullets_example]
  by (simp add: bullets_example_def)

text \<open>
  Claim C2. In the document built with a readable template image, the bullet outline
  box of every content slide has as many paragraphs as its bullet specification has
  top-level items plus sub-items.
\<close>

theorem content_slide_paragraph_count:
  assumes "readable_image e (template_image a)" and "i < length slide_specs"
  shows "\<exists>prs. build_prs e a = Inr prs \<and>
           length (last_box (slides prs ! Suc i)) = spec_count (fst (snd (slide_specs ! i)))"
proof -
  obtain ttl bullets nts where s: "slide_specs ! i = (ttl, bullets, nts)"
    by (cases "slide_specs ! i") auto
  from assms(2) have "slide_specs ! i \<in> set slide_specs" by simp
  with slide_specs_spec_items s have wf: "bullets \<noteq> []" "\<forall>b\<in>set bullets. spec_item b"
    by force+
  from assms obtain prs where b: "build_prs e a = Inr prs"
    and "slides prs ! Suc i = content_slide 9144000 6858000 (template_image a) (slide_specs ! i)"
    by (simp add: build_prs_eq)
  then have "last_box (slides prs ! Suc i) = paragraphs (add_items bullets init_frame)"
    by (simp add: s content_slide_def last_box_def add_bullets_def init_frame_def)
  with paragraph_count [OF wf] b show ?thesis by (simp add: s)
qed

theorem content_slide_paragraph_count_witness:
  "readable_image env_a (template_image args_plain) \<and> (5::nat) < length slide_specs \<and>
   (\<exists>prs. build_prs env_a args_plain = Inr prs \<and> length (last_box (slides prs ! Suc 5)) = 8)"
proof -
  have r: "readable_image env_a (template_image args_plain)"
    by (simp add: env_a_def args_plain_def)
  have i: "(5::nat) < length slide_specs" by (simp add: length_slide_specs)
  have c: "spec_count (fst (snd (slide_specs ! 5))) = 8"
    by (simp add: slide_specs_def spec_count_def)
  from content_slide_paragraph_count [OF r i] r i c show ?thesis by simp
qed

text \<open>
  Claim C9. An empty group in the bullet content gives no paragraph: the outline box is
  the one built from the content without it.
\<close>

theorem empty_group_skipped:
  "add_bullets sl (xs @ Seq [] # ys) = add_bullets sl (xs @ ys)"
  by (simp add: add_bullets_def add_items_append)

theorem empty_group_skipped_witness:
  "length (last_box (add_bullets blank_slide ([Str ''a''] @ Seq [] # [Str ''b'']))) = 2"
  using empty_group_skipped [of blank_slide "[Str ''a'']" "[Str ''b'']"]
  by (simp add: add_bullets_def last_box_def add_line_def)

subsection \<open>The slides of the document\<close>

text \<open>
  Claim C3. With a readable template image the build returns a document of exactly
  1 + K slides, K the length of the compiled-in list of content slides, and K = 17.
\<close>

theorem build_prs_slide_count:
  "readable_image e (template_image a) \<Longrightarrow>
     (\<exists>prs. build_prs e a = Inr prs \<and> length (slides prs) = 1 + length slide_specs) \<and>
     length slide_specs = 17"
  by (simp add: build_prs_eq length_slide_specs)

theorem build_prs_slide_count_witness:
  "readable_image env_a (template_image args_plain) \<and>
   (\<exists>prs. build_prs env_a args_plain = Inr prs \<and> length (slides prs) = 18)"
proof -
  have r: "readable_image env_a (template_image args_plain)"
    by (simp add: env_a_def args_plain_def)
  from build_prs_slide_count [OF r] r show ?thesis by auto
qed

text \<open>
  Claim C4. For any presenter and organization, the subtitle block of the title slide
  is the subtitle line, then a line feed and the presenter exactly when the presenter is
  not empty, then a line feed and the organization exactly when the organization is not
  empty, then a line feed and the date. When no field contains a line feed, the lines of
  the block are the subtitle, those of presenter and organization that are not empty,
  and the date.
\<close>

theorem title_slide_subtitle_block:
  assumes "readable_image e img"
  shows "\<exists>prs'. add_title_slide e prs img ttl subtitle pres organ when = Inr prs' \<and>
           subtitle_text (last (slides prs')) =
             subtitle @ (if pres = [] then [] else newline # pres) @
               (if organ = [] then [] else newline # organ) @ newline # when \<and>
           ((\<forall>s\<in>set [subtitle, pres, organ, when]. newline \<notin> set s) \<longrightarrow>
              split_on newline (subtitle_text (last (slides prs'))) =
                subtitle # filter (\<lambda>s. s \<noteq> []) [pres, organ] @ [when])"
proof -
  from assms obtain prs' where
    a: "add_title_slide e prs img ttl subtitle pres organ when = Inr prs'" and
    t: "subtitle_text (last (slides prs')) =
          join [newline] (subtitle_lines subtitle pres organ when)"
    by (simp add: add_title_slide_eq subtitle_text_title_slide)
  have "(\<forall>s\<in>set [subtitle, pres, organ, when]. newline \<notin> set s) \<Longrightarrow>
      split_on newline (join [newline] (subtitle_lines subtitle pres organ when)) =
        subtitle_lines subtitle pres organ when"
    by (rule split_on_join) (auto simp: subtitle_lines_def Let_def)
  with t have "subtitle_text (last (slides prs')) =
             subtitle @ (if pres = [] then [] else newline # pres) @
               (if organ = [] then [] else newline # organ) @ newline # when \<and>
           ((\<forall>s\<in>set [subtitle, pres, organ, when]. newline \<notin> set s) \<longrightarrow>
              split_on newline (subtitle_text (last (slides prs'))) =
                subtitle # filter (\<lambda>s. s \<noteq> []) [pres, organ] @ [when])"
    by (simp only: join_subtitle_lines subtitle_lines_filter [symmetric]) simp
  with a show ?thesis by blast
qed

theorem title_slide_subtitle_block_witness:
  "readable_image env_a ''t.png'' \<and>
   newline \<notin> set ''Sub'' \<and> newline \<notin> set ''Jane Doe'' \<and> newline \<notin> set [] \<and>
   newline \<notin> set ''01/01/2030'' \<and>
   (\<exists>prs'. add_title_slide env_a Presentation ''t.png'' ''Deck'' ''Sub'' ''Jane Doe'' []
              ''01/01/2030'' = Inr prs' \<and>
      subtitle_text (last (slides prs')) =
        ''Sub'' @ newline # ''Jane Doe'' @ newline # ''01/01/2030'' \<and>
      split_on newline (subtitle_text (last (slides prs'))) =
        [''Sub'', ''Jane Doe'', ''01/01/2030''])"
proof -
  have r: "readable_image env_a ''t.png''" by (simp add: env_a_def)
  have n: "newline \<notin> set ''Sub''" "newline \<notin> set ''Jane Doe''" "newline \<notin> set []"
    "newline \<notin> set ''01/01/2030''"
    by (simp_all add: newline_def)
  from title_slide_subtitle_block [OF r, of Presentation "''Deck''" "''Sub''" "''Jane Doe''"
      "[]" "''01/01/2030''"] n
  have "\<exists>prs'. add_title_slide env_a Presentation ''t.png'' ''Deck'' ''Sub'' ''Jane Doe'' []
              ''01/01/2030'' = Inr prs' \<and>
      subtitle_text (last (slides prs')) =
        ''Sub'' @ newline # ''Jane Doe'' @ newline # ''01/01/2030'' \<and>
      split_on newline (subtitle_text (last (slides prs'))) =
        [''Sub'', ''Jane Doe'', ''01/01/2030'']"
    by auto
  with r n show ?thesis by blast
qed

text \<open>
  Claim C10. Adding notes with an empty text leaves the slide as it is, so a content
  slide has a notes slide exactly when its notes text is not empty.
\<close>

theorem add_notes_empty_unchanged:
  "add_notes sl [] = sl \<and>
   (readable_image e img \<longrightarrow>
      (\<exists>prs'. add_content_slide e prs img ttl bullets nts = Inr prs' \<and>
         (notes_slide (last (slides prs')) \<noteq> None) = (nts \<noteq> [])))"
  by (simp add: add_notes_def add_content_slide_eq content_slide_def add_bullets_def
      add_title_def picture_slide_def blank_slide_def)

theorem add_notes_empty_unchanged_witness:
  "readable_image env_a ''t.png'' \<and>
   (\<exists>prs'. add_content_slide env_a deck_one ''t.png'' ''T'' [Str ''a''] [] = Inr prs' \<and>
      notes_slide (last (slides prs')) = None) \<and>
   (\<exists>prs'. add_content_slide env_a deck_one ''t.png'' ''T'' [Str ''a''] ''say'' = Inr prs' \<and>
      notes_slide (last (slides prs')) \<noteq> None)"
proof -
  have r: "readable_image env_a ''t.png''" by (simp add: env_a_def)
  from add_notes_empty_unchanged [of blank_slide env_a "''t.png''" deck_one "''T''"
      "[Str ''a'']" "[]"] r
  have 1: "\<exists>prs'. add_content_slide env_a deck_one ''t.png'' ''T'' [Str ''a''] [] = Inr prs' \<and>
      notes_slide (last (slides prs')) = None"
    by simp
  from add_notes_empty_unchanged [of blank_slide env_a "''t.png''" deck_one "''T''"
      "[Str ''a'']" "''say''"] r
  have 2: "\<exists>prs'. add_content_slide env_a deck_one ''t.png'' ''T'' [Str ''a''] ''say'' = Inr prs' \<and>
      notes_slide (last (slides prs')) \<noteq> None"
    by simp
  from r 1 2 show ?thesis by blast
qed

text \<open>
  Claim C6, as amended. Every slide of the built document has exactly one picture, of
  the width and height of the slide, at most one title box, at most one body box and at
  most one notes block; adding a content slide or a title slide to a document whose
  slides are so, when the operation returns, gives a document whose slides are so.
\<close>

theorem slide_invariant:
  "(readable_image e (template_image a) \<longrightarrow>
      (\<exists>prs. build_prs e a = Inr prs \<and> deck_inv prs)) \<and>
   (deck_inv p \<and> add_content_slide e p img ttl bullets nts = Inr p' \<longrightarrow> deck_inv p') \<and>
   (deck_inv q \<and> add_title_slide e q img2 ttl2 subtitle pres organ when = Inr q' \<longrightarrow>
      deck_inv q')"
proof (intro conjI impI)
  assume "readable_image e (template_image a)"
  then obtain prs where "build_prs e a = Inr prs" by (simp add: build_prs_eq)
  with deck_inv_build show "\<exists>prs. build_prs e a = Inr prs \<and> deck_inv prs" by blast
next
  assume "deck_inv p \<and> add_content_slide e p img ttl bullets nts = Inr p'"
  then show "deck_inv p'" using deck_inv_content by blast
next
  assume "deck_inv q \<and> add_title_slide e q img2 ttl2 subtitle pres organ when = Inr q'"
  then show "deck_inv q'" using deck_inv_title by blast
qed

theorem slide_invariant_witness:
  "readable_image env_a (template_image args_plain) \<and>
   (\<exists>prs. build_prs env_a args_plain = Inr prs \<and> deck_inv prs) \<and>
   deck_inv deck_one \<and>
   add_content_slide env_a deck_one ''t.png'' ''T'' [Str ''a''] ''say'' =
     Inr (deck_one\<lparr>slides := slides deck_one @
            [content_slide 9144000 6858000 ''t.png'' (''T'', [Str ''a''], ''say'')]\<rparr>) \<and>
   deck_inv (deck_one\<lparr>slides := slides deck_one @
            [content_slide 9144000 6858000 ''t.png'' (''T'', [Str ''a''], ''say'')]\<rparr>) \<and>
   add_title_slide env_a deck_one ''t.png'' ''T'' ''Sub'' ''Jane Doe'' [] ''01/01/2030'' =
     Inr (deck_one\<lparr>slides := slides deck_one @
            [title_slide 9144000 6858000 ''t.png'' ''T''
               [''Sub'', ''Jane Doe'', ''01/01/2030'']]\<rparr>) \<and>
   deck_inv (deck_one\<lparr>slides := slides deck_one @
            [title_slide 9144000 6858000 ''t.png'' ''T''
               [''Sub'', ''Jane Doe'', ''01/01/2030'']]\<rparr>)"
proof -
  let ?p' = "deck_one\<lparr>slides := slides deck_one @
            [content_slide 9144000 6858000 ''t.png'' (''T'', [Str ''a''], ''say'')]\<rparr>"
  let ?q' = "deck_one\<lparr>slides := slides deck_one @
            [title_slide 9144000 6858000 ''t.png'' ''T''
               [''Sub'', ''Jane Doe'', ''01/01/2030'']]\<rparr>"
  have r: "readable_image env_a (template_image args_plain)"
    by (simp add: env_a_def args_plain_def)
  have d: "deck_inv deck_one"
    by (simp add: deck_inv_def deck_one_def slide_inv_title)
  have c: "add_content_slide env_a deck_one ''t.png'' ''T'' [Str ''a''] ''say'' = Inr ?p'"
    by (simp add: add_content_slide_eq env_a_def deck_one_def)
  have t: "add_title_slide env_a deck_one ''t.png'' ''T'' ''Sub'' ''Jane Doe'' [] ''01/01/2030'' =
      Inr ?q'"
    by (simp add: add_title_slide_eq env_a_def deck_one_def subtitle_lines_def)
  note inv = slide_invariant [of env_a args_plain deck_one "''t.png''" "''T''" "[Str ''a'']"
      "''say''" ?p' deck_one "''t.png''" "''T''" "''Sub''" "''Jane Doe''" "[]"
      "''01/01/2030''" ?q']
  from inv r have 1: "\<exists>prs. build_prs env_a args_plain = Inr prs \<and> deck_inv prs" by blast
  from inv d c have 2: "deck_inv ?p'" by blast
  from inv d t have 3: "deck_inv ?q'" by blast
  from r 1 d c 2 t 3 show ?thesis by blast
qed

text \<open>
  Claim C6 as the specification states it fails: a slide-adding operation that cannot
  open its picture has already appended the blank slide, so it leaves a document with a
  slide that has no picture.
\<close>

theorem failed_slide_breaks_invariant:
  "deck_inv deck_one \<and> \<not> readable_image env_a ''missing.png'' \<and>
   add_content_slide env_a deck_one ''missing.png'' ''T'' [Str ''a''] ''say'' =
     Inl (IOError, deck_one\<lparr>slides := slides deck_one @ [blank_slide]\<rparr>) \<and>
   \<not> deck_inv (deck_one\<lparr>slides := slides deck_one @ [blank_slide]\<rparr>) \<and>
   add_title_slide env_a deck_one ''missing.png'' ''T'' ''Sub'' ''Jane Doe'' [] ''01/01/2030'' =
     Inl (IOError, deck_one\<lparr>slides := slides deck_one @ [blank_slide]\<rparr>)"
proof -
  have d: "deck_inv deck_one"
    by (simp add: deck_inv_def deck_one_def slide_inv_title)
  have r: "\<not> readable_image env_a ''missing.png''" by (simp add: env_a_def)
  have c: "add_content_slide env_a deck_one ''missing.png'' ''T'' [Str ''a''] ''say'' =
      Inl (IOError, deck_one\<lparr>slides := slides deck_one @ [blank_slide]\<rparr>)"
    using r by (simp add: add_content_slide_eq)
  have t: "add_title_slide env_a deck_one ''missing.png'' ''T'' ''Sub'' ''Jane Doe'' []
      ''01/01/2030'' = Inl (IOError, deck_one\<lparr>slides := slides deck_one @ [blank_slide]\<rparr>)"
    using r by (simp add: add_title_slide_eq)
  have n: "\<not> deck_inv (deck_one\<lparr>slides := slides deck_one @ [blank_slide]\<rparr>)"
    by (simp add: deck_inv_def slide_inv_def blank_slide_def)
  from d r c n t show ?thesis by blast
qed

subsection \<open>The date, and two runs\<close>

text \<open>
  Claim C5, as amended. When the command line leaves the date out, the date in the
  subtitle block of the title slide is the default of the option, 07/11/2025; the date
  of the day is used when the date given is the empty string.
\<close>

theorem omitted_date_is_default:
  assumes "parse_args c = Inr a" and "cli_date c = None"
    and "readable_image e (template_image a)"
  shows "\<exists>prs. build_prs e a = Inr prs \<and> deck_date prs = ''07/11/2025''"
proof -
  from assms(1,2) have d: "date a = ''07/11/2025''"
    by (auto simp: parse_args_def split: option.splits)
  from assms(3) obtain prs where b: "build_prs e a = Inr prs" by (simp add: build_prs_eq)
  have "deck_subtitle_text prs =
      join [newline] (subtitle_lines deck_subtitle (presenter a) (org a) ''07/11/2025'')"
    using deck_obs_build [OF b] d by (simp add: when_of_def)
  moreover have "newline \<notin> set ''07/11/2025''" by (simp add: newline_def)
  ultimately have "deck_date prs = ''07/11/2025''"
    unfolding deck_date_def using last_line_subtitle by metis
  with b show ?thesis by blast
qed

theorem omitted_date_is_default_witness:
  "parse_args cli_plain = Inr args_plain \<and> cli_date cli_plain = None \<and>
   readable_image env_a (template_image args_plain) \<and>
   (\<exists>prs. build_prs env_a args_plain = Inr prs \<and> deck_date prs = ''07/11/2025'')"
proof -
  have p: "parse_args cli_plain = Inr args_plain"
    by (simp add: parse_args_def cli_plain_def args_plain_def)
  have n: "cli_date cli_plain = None" by (simp add: cli_plain_def)
  have r: "readable_image env_a (template_image args_plain)"
    by (simp add: env_a_def args_plain_def)
  from omitted_date_is_default [OF p n r] p n r show ?thesis by blast
qed

text \<open>
  Claim C5 as the specification states it fails: on 2026-11-04, with the date left out,
  the date of the deck is 07/11/2025 and not the date of the day.
\<close>

theorem omitted_date_not_today:
  "parse_args cli_plain = Inr args_plain \<and> cli_date cli_plain = None \<and>
   today env_a = ''2026-11-04'' \<and>
   map_sum id deck_date (build_prs env_a args_plain) = Inr ''07/11/2025'' \<and>
   map_sum id deck_date (build_prs env_a args_plain) \<noteq> Inr (today env_a)"
proof -
  have p: "parse_args cli_plain = Inr args_plain"
    by (simp add: parse_args_def cli_plain_def args_plain_def)
  have n: "cli_date cli_plain = None" by (simp add: cli_plain_def)
  have t: "today env_a = ''2026-11-04''" by (simp add: env_a_def)
  have r: "readable_image env_a (template_image args_plain)"
    by (simp add: env_a_def args_plain_def)
  then obtain prs where b: "build_prs env_a args_plain = Inr prs" by (simp add: build_prs_eq)
  have w: "when_of env_a args_plain = ''07/11/2025''"
    by (simp add: when_of_def args_plain_def)
  have "newline \<notin> set ''07/11/2025''" by (simp add: newline_def)
  with deck_obs_build [OF b] w have "deck_date prs = ''07/11/2025''"
    unfolding deck_date_def using last_line_subtitle by metis
  with b have m: "map_sum id deck_date (build_prs env_a args_plain) = Inr ''07/11/2025''"
    by simp
  with p n t show ?thesis by simp
qed

text \<open>
  Claim C7, as amended. Two runs on the same command line, with a date given that is
  not the empty string, and a template image readable in both, return documents with the
  same number of slides, the same titles in order and the same subtitle text, whatever
  the day of each run: the titles are the deck title and the compiled-in titles, the
  subtitle text is made of the fields of the command line.
\<close>

theorem build_prs_deterministic:
  assumes "parse_args c = Inr a" and "cli_date c = Some d" and "d \<noteq> []"
    and "readable_image e1 (template_image a)" and "readable_image e2 (template_image a)"
  shows "\<exists>p1 p2. build_prs e1 a = Inr p1 \<and> build_prs e2 a = Inr p2 \<and>
           length (slides p1) = length (slides p2) \<and> deck_titles p1 = deck_titles p2 \<and>
           deck_subtitle_text p1 = deck_subtitle_text p2 \<and>
           deck_titles p1 = title a # map fst slide_specs \<and>
           deck_subtitle_text p1 =
             join [newline] (subtitle_lines deck_subtitle (presenter a) (org a) d)"
proof -
  from assms(1,2,3) have d: "date a = d"
    by (auto simp: parse_args_def split: option.splits)
  with assms(3) have w: "when_of e1 a = d" "when_of e2 a = d" by (simp_all add: when_of_def)
  with assms(4,5) obtain p where 1: "build_prs e1 a = Inr p" and 2: "build_prs e2 a = Inr p"
    by (simp add: build_prs_eq)
  from deck_titles_build [OF 1] deck_obs_build [OF 1] w 1 2 show ?thesis by auto
qed

theorem build_prs_deterministic_witness:
  "parse_args cli_jane = Inr args_jane \<and> cli_date cli_jane = Some ''01/01/2030'' \<and>
   ''01/01/2030'' \<noteq> [] \<and>
   readable_image env_a (template_image args_jane) \<and>
   readable_image env_b (template_image args_jane) \<and>
   (\<exists>p1 p2. build_prs env_a args_jane = Inr p1 \<and> build_prs env_b args_jane = Inr p2 \<and>
      length (slides p1) = length (slides p2) \<and> deck_titles p1 = deck_titles p2 \<and>
      deck_subtitle_text p1 = deck_subtitle_text p2 \<and>
      deck_subtitle_text p1 =
        deck_subtitle @ newline # ''Jane Doe'' @ newline # ''01/01/2030'')"
proof -
  have p: "parse_args cli_jane = Inr args_jane"
    by (simp add: parse_args_def cli_jane_def args_jane_def)
  have n: "cli_date cli_jane = Some ''01/01/2030''" by (simp add: cli_jane_def)
  have d: "''01/01/2030'' \<noteq> []" by simp
  have r1: "readable_image env_a (template_image args_jane)"
    by (simp add: env_a_def args_jane_def)
  have r2: "readable_image env_b (template_image args_jane)"
    by (simp add: env_b_def args_jane_def)
  have j: "join [newline] (subtitle_lines deck_subtitle (presenter args_jane) (org args_jane)
      ''01/01/2030'') = deck_subtitle @ newline # ''Jane Doe'' @ newline # ''01/01/2030''"
    by (simp add: join_subtitle_lines args_jane_def)
  from build_prs_deterministic [OF p n d r1 r2] have "\<exists>p1 p2.
      build_prs env_a args_jane = Inr p1 \<and> build_prs env_b args_jane = Inr p2 \<and>
      length (slides p1) = length (slides p2) \<and> deck_titles p1 = deck_titles p2 \<and>
      deck_subtitle_text p1 = deck_subtitle_text p2 \<and>
      deck_subtitle_text p1 =
        deck_subtitle @ newline # ''Jane Doe'' @ newline # ''01/01/2030''"
    unfolding j by blast
  with p n d r1 r2 show ?thesis by blast
qed

text \<open>
  Claim C7 as the specification states it fails: with the empty string given as the
  date, the runs of 2026-11-04 and of 2026-11-05 on the same command line differ in the
  subtitle text.
\<close>

theorem empty_date_depends_on_day:
  "parse_args cli_no_date = Inr args_no_date \<and> cli_date cli_no_date = Some [] \<and>
   map_sum id deck_date (build_prs env_a args_no_date) = Inr ''2026-11-04'' \<and>
   map_sum id deck_date (build_prs env_b args_no_date) = Inr ''2026-11-05'' \<and>
   map_sum id deck_subtitle_text (build_prs env_a args_no_date) \<noteq>
     map_sum id deck_subtitle_text (build_prs env_b args_no_date)"
proof -
  have p: "parse_args cli_no_date = Inr args_no_date"
    by (simp add: parse_args_def cli_no_date_def args_no_date_def)
  have n: "cli_date cli_no_date = Some []" by (simp add: cli_no_date_def)
  have ra: "readable_image env_a (template_image args_no_date)"
    by (simp add: env_a_def args_no_date_def)
  have rb: "readable_image env_b (template_image args_no_date)"
    by (simp add: env_b_def args_no_date_def)
  from ra obtain pa where ba: "build_prs env_a args_no_date = Inr pa"
    by (simp add: build_prs_eq)
  from rb obtain pb where bb: "build_prs env_b args_no_date = Inr pb"
    by (simp add: build_prs_eq)
  have wa: "when_of env_a args_no_date = ''2026-11-04''"
    by (simp add: when_of_def args_no_date_def env_a_def)
  have wb: "when_of env_b args_no_date = ''2026-11-05''"
    by (simp add: when_of_def args_no_date_def env_b_def)
  have na: "newline \<notin> set ''2026-11-04''" and nb: "newline \<notin> set ''2026-11-05''"
    by (simp_all add: newline_def)
  from deck_obs_build [OF ba] wa na have da: "deck_date pa = ''2026-11-04''"
    unfolding deck_date_def using last_line_subtitle by metis
  from deck_obs_build [OF bb] wb nb have db: "deck_date pb = ''2026-11-05''"
    unfolding deck_date_def using last_line_subtitle by metis
  from da db have "deck_subtitle_text pa \<noteq> deck_subtitle_text pb"
    by (auto simp: deck_date_def)
  with p n ba bb da db show ?thesis by simp
qed

subsection \<open>The unreadable template\<close>

text \<open>
  Claim C8. When the template image of the command line is not a readable image, the
  run ends with the I/O error and the world is as before: no file is written, at the
  output path or elsewhere, and nothing is printed.
\<close>

theorem unreadable_image_fails_before_save:
  "cli_template_image c = Some img \<Longrightarrow> \<not> readable_image e img \<Longrightarrow>
     main e c w = (Inl IOError, w)"
  by (simp add: main_def parse_args_def build_prs_eq)

theorem unreadable_image_fails_before_save_witness:
  "cli_template_image cli_missing = Some ''missing.png'' \<and>
   \<not> readable_image env_a ''missing.png'' \<and>
   main env_a cli_missing world_empty = (Inl IOError, world_empty) \<and>
   files world_empty ''Playwright-MCP-Demo.pptx'' = None \<and> printed world_empty = []"
proof -
  have c: "cli_template_image cli_missing = Some ''missing.png''"
    by (simp add: cli_missing_def)
  have r: "\<not> readable_image env_a ''missing.png''" by (simp add: env_a_def)
  from unreadable_image_fails_before_save [OF c r, of world_empty] c r show ?thesis
    by (simp add: world_empty_def)
qed

end
